theory Spec2Isabelle
  imports Main "HOL-Library.Word" "HOL-Library.Sublist" "HOL-Library.Char_ord" "HOL-Library.List_Lexorder"
begin

section \<open>Rufs: remote union file system\<close>

text \<open>
  A shallow embedding of the node transport (\<open>node\<close> package), the branch engine
  (\<open>Branch\<close>) and the tree client (\<open>Tree\<close>) of Rufs. Go strings are byte strings and
  are modelled as \<open>string\<close>; byte slices are lists of 8-bit words. Library functions the
  repository calls but does not define (hash functions, the gob codec, the regular
  expression engine, the network) are parameters of the definitions that use them.
\<close>

type_synonym byte = "8 word"

subsection \<open>Errors\<close>

text \<open>
  The error values of \<open>node/globals.go\<close> (the five sentinels and the \<open>Error\<close> struct),
  the sentinels of the Go library the code tests for, and \<open>fmt.Errorf\<close> texts.
\<close>

datatype errType =
    ErrNodeComm
  | ErrRemoteAction
  | ErrUnknownTarget
  | ErrUntrustedTarget
  | ErrInvalidToken

datatype errno = ENOENT | ENOTDIR | EISDIR | EEXIST | EINVAL

datatype error =
    Sentinel errType
  | NodeError errType string bool
  | Errorf string
  | IoEOF
  | IoErrUnexpectedEOF
  | RpcErrShutdown
  | OsErrNotExist
  | PathError string string errno
  | NetError string

fun errTypeText :: "errType \<Rightarrow> string" where
  "errTypeText ErrNodeComm = ''Network error''"
| "errTypeText ErrRemoteAction = ''Remote error''"
| "errTypeText ErrUnknownTarget = ''Unknown target node''"
| "errTypeText ErrUntrustedTarget = ''Unexpected SSL certificate from target node''"
| "errTypeText ErrInvalidToken = ''Invalid node token''"

fun errnoText :: "errno \<Rightarrow> string" where
  "errnoText ENOENT = ''no such file or directory''"
| "errnoText ENOTDIR = ''not a directory''"
| "errnoText EISDIR = ''is a directory''"
| "errnoText EEXIST = ''file exists''"
| "errnoText EINVAL = ''invalid argument''"

text \<open>\<open>Error()\<close>: the text of an error value.\<close>

fun errorText :: "error \<Rightarrow> string" where
  "errorText (Sentinel t) = errTypeText t"
| "errorText (NodeError t detail ne) =
     (if detail \<noteq> [] then ''RufsError: '' @ errTypeText t @ '' ('' @ detail @ '')''
      else ''RufsError: '' @ errTypeText t)"
| "errorText (Errorf s) = s"
| "errorText IoEOF = ''EOF''"
| "errorText IoErrUnexpectedEOF = ''unexpected EOF''"
| "errorText RpcErrShutdown = ''connection is shut down''"
| "errorText OsErrNotExist = ''file does not exist''"
| "errorText (PathError op p e) = op @ '' '' @ p @ '': '' @ errnoText e"
| "errorText (NetError s) = s"

text \<open>\<open>os.IsNotExist\<close>: the sentinel, or a path error carrying \<open>ENOENT\<close>.\<close>

fun osIsNotExist :: "error option \<Rightarrow> bool" where
  "osIsNotExist (Some OsErrNotExist) = True"
| "osIsNotExist (Some (PathError op p ENOENT)) = True"
| "osIsNotExist _ = False"

subsection \<open>Hex formatting\<close>

definition hexDigitUpper :: "nat \<Rightarrow> char" where
  "hexDigitUpper n = ''0123456789ABCDEF'' ! (n mod 16)"

definition hexDigitLower :: "nat \<Rightarrow> char" where
  "hexDigitLower n = ''0123456789abcdef'' ! (n mod 16)"

text \<open>\<open>fmt.Sprintf("%X", bytes)\<close> and \<open>fmt.Sprintf("%x", bytes)\<close>: two digits per byte.\<close>

fun sprintfX :: "byte list \<Rightarrow> string" where
  "sprintfX [] = []"
| "sprintfX (b # bs) = hexDigitUpper (unat b div 16) # hexDigitUpper (unat b mod 16) # sprintfX bs"

fun sprintfx :: "byte list \<Rightarrow> string" where
  "sprintfx [] = []"
| "sprintfx (b # bs) = hexDigitLower (unat b div 16) # hexDigitLower (unat b mod 16) # sprintfx bs"

text \<open>\<open>[]byte(s)\<close> for a Go string.\<close>

definition bytesOf :: "string \<Rightarrow> byte list" where
  "bytesOf s = map (\<lambda>c. of_nat (of_char c)) s"

subsection \<open>The RPC server: token check, Ping and Data\<close>

record RufsNodeToken =
  NodeName :: string
  NodeAuth :: string

text \<open>
  The fields of \<open>RufsNode\<close> the server reads. The data handler works on a state
  \<open>'s\<close> (for a branch, its file system) and returns its bytes and its error.
\<close>

record 's RufsNode =
  name :: string
  secret :: string
  DataHandler :: "('s \<Rightarrow> (string \<times> string) list \<Rightarrow> byte list
                    \<Rightarrow> (byte list \<times> error option) \<times> 's) option"

datatype RequestArgument = RequestTARGET | RequestTOKEN | RequestCTRL | RequestDATA

text \<open>
  A request is a \<open>map[RequestArgument]interface{}\<close>: the values are dynamically typed,
  and a type assertion on a missing or differently typed value panics. \<open>VNilToken\<close> is
  a nil \<open>*RufsNodeToken\<close>, whose field access panics.
\<close>

datatype rvalue =
    VStr string
  | VToken RufsNodeToken
  | VNilToken
  | VCtrl "(string \<times> string) list"
  | VBytes "byte list"
  | VStrings "string list"

type_synonym request = "RequestArgument \<Rightarrow> rvalue option"

datatype 'a go = Panic | Ret 'a

text \<open>
  \<open>RufsServer.checkToken\<close>; \<open>sum512_224\<close> is \<open>sha512.Sum512_224\<close>. The target's
  type assertion comes first, then the token's; the token is dereferenced only when the
  target is registered.
\<close>

definition checkToken ::
  "(byte list \<Rightarrow> byte list) \<Rightarrow> (string \<rightharpoonup> 's RufsNode) \<Rightarrow> request
     \<Rightarrow> ('s RufsNode option \<times> error option) go" where
  "checkToken sum512_224 nodes request =
     (case request RequestTARGET of
        Some (VStr target) \<Rightarrow>
          (case request RequestTOKEN of
             Some (VToken token) \<Rightarrow>
               (case nodes target of
                  Some node \<Rightarrow>
                    (let expectedAuth = sprintfX (sum512_224 (bytesOf (NodeName token @ secret node)))
                     in if NodeAuth token = expectedAuth then Ret (Some node, None)
                        else Ret (None, Some (Sentinel ErrInvalidToken)))
                | None \<Rightarrow> Ret (None, Some (Sentinel ErrUnknownTarget)))
           | Some VNilToken \<Rightarrow>
               (case nodes target of
                  Some node \<Rightarrow> Panic
                | None \<Rightarrow> Ret (None, Some (Sentinel ErrUnknownTarget)))
           | _ \<Rightarrow> Panic)
      | _ \<Rightarrow> Panic)"

text \<open>
  \<open>RufsServer.Ping\<close>: the pair is the value stored through the response pointer
  (\<open>None\<close> when nothing is stored) and the returned error.
\<close>

definition Ping ::
  "(byte list \<Rightarrow> byte list) \<Rightarrow> (string \<rightharpoonup> 's RufsNode) \<Rightarrow> request
     \<Rightarrow> (rvalue option \<times> error option) go" where
  "Ping sum512_224 nodes request =
     (case checkToken sum512_224 nodes request of
        Panic \<Rightarrow> Panic
      | Ret (_, Some err) \<Rightarrow> Ret (None, Some err)
      | Ret (_, None) \<Rightarrow> Ret (Some (VStrings [''Pong'']), None))"

text \<open>\<open>RufsServer.Data\<close>, with the handler's state passed through.\<close>

definition Data ::
  "(byte list \<Rightarrow> byte list) \<Rightarrow> (string \<rightharpoonup> 's RufsNode) \<Rightarrow> request \<Rightarrow> 's
     \<Rightarrow> ((rvalue option \<times> error option) \<times> 's) go" where
  "Data sum512_224 nodes request st =
     (case checkToken sum512_224 nodes request of
        Panic \<Rightarrow> Panic
      | Ret (_, Some err) \<Rightarrow> Ret ((None, Some err), st)
      | Ret (None, None) \<Rightarrow> Panic
      | Ret (Some node, None) \<Rightarrow>
          (case DataHandler node of
             None \<Rightarrow> Ret ((None, None), st)
           | Some handler \<Rightarrow>
               (case request RequestCTRL of
                  Some (VCtrl ctrl) \<Rightarrow>
                    (case request RequestDATA of
                       Some (VBytes data) \<Rightarrow>
                         (case handler st ctrl data of
                            ((res, None), st') \<Rightarrow> Ret ((Some (VBytes res), None), st')
                          | ((res, Some err), st') \<Rightarrow> Ret ((None, Some err), st'))
                     | _ \<Rightarrow> Panic)
                | _ \<Rightarrow> Panic)))"

text \<open>A registry with one node and a request naming a target, for concrete runs.\<close>

definition ex_nodes :: "string \<rightharpoonup> unit RufsNode" where
  "ex_nodes = [''A'' \<mapsto> \<lparr>name = ''A'', secret = ''s'', DataHandler = None\<rparr>]"

definition ex_request :: "string \<Rightarrow> string \<Rightarrow> request" where
  "ex_request tgt auth =
     (\<lambda>k. case k of
        RequestTARGET \<Rightarrow> Some (VStr tgt)
      | RequestTOKEN \<Rightarrow> Some (VToken \<lparr>NodeName = ''c'', NodeAuth = auth\<rparr>)
      | _ \<Rightarrow> None)"

subsection \<open>Paths\<close>

text \<open>
  \<open>strings.Split\<close> on a separator byte and \<open>strings.Join\<close>.
\<close>

fun splitOn :: "char \<Rightarrow> string \<Rightarrow> string list" where
  "splitOn sep [] = [[]]"
| "splitOn sep (x # xs) =
     (if x = sep then [] # splitOn sep xs
      else (case splitOn sep xs of [] \<Rightarrow> [[x]] | w # ws \<Rightarrow> (x # w) # ws))"

fun joinWith :: "string \<Rightarrow> string list \<Rightarrow> string" where
  "joinWith sep [] = []"
| "joinWith sep [x] = x"
| "joinWith sep (x # y # ys) = x @ sep @ joinWith sep (y # ys)"

text \<open>
  \<open>path.Clean\<close> (and \<open>filepath.Clean\<close> on Unix) of the Go library, by components:
  empty and \<open>.\<close> elements are dropped, \<open>..\<close> removes the element before it, is dropped
  at the start of a rooted path and kept at the start of a relative one; the empty
  result is \<open>.\<close>.
\<close>

definition cleanStep :: "bool \<Rightarrow> string list \<Rightarrow> string \<Rightarrow> string list" where
  "cleanStep rooted out c =
     (if c = [] \<or> c = ''.'' then out
      else if c = ''..'' then
        (if out \<noteq> [] \<and> last out \<noteq> ''..'' then butlast out
         else if \<not> rooted then out @ [''..'']
         else out)
      else out @ [c])"

definition Clean :: "string \<Rightarrow> string" where
  "Clean p =
     (if p = [] then ''.''
      else let rooted = (hd p = CHR ''/'');
               out = foldl (cleanStep rooted) [] (splitOn CHR ''/'' p)
           in if rooted then CHR ''/'' # joinWith ''/'' out
              else if out = [] then ''.'' else joinWith ''/'' out)"

text \<open>\<open>path.Join\<close> / \<open>filepath.Join\<close>: leading empty elements are ignored.\<close>

definition Join :: "string list \<Rightarrow> string" where
  "Join elem =
     (case dropWhile (\<lambda>e. e = []) elem of
        [] \<Rightarrow> []
      | es \<Rightarrow> Clean (joinWith ''/'' es))"

definition IsAbs :: "string \<Rightarrow> bool" where
  "IsAbs p = (p \<noteq> [] \<and> hd p = CHR ''/'')"

text \<open>\<open>filepath.Abs\<close>; \<open>getwd\<close> is the result of \<open>os.Getwd\<close>.\<close>

definition Abs :: "error + string \<Rightarrow> string \<Rightarrow> error + string" where
  "Abs getwd p =
     (if IsAbs p then Inr (Clean p)
      else (case getwd of Inl e \<Rightarrow> Inl e | Inr wd \<Rightarrow> Inr (Join [wd, p])))"


text \<open>\<open>createMappingPath\<close> of \<open>tree.go\<close>: split on \<open>/\<close>, drop empty components.\<close>

definition createMappingPath :: "string \<Rightarrow> string list" where
  "createMappingPath p = filter (\<lambda>i. i \<noteq> []) (splitOn CHR ''/'' p)"

subsection \<open>The branch and its sandbox\<close>

record Branch =
  rootPath :: string
  branchName :: string
  readonly :: bool

text \<open>
  \<open>Branch.constructSubPath\<close>; \<open>filepath.FromSlash\<close> is the identity on Unix. The
  containment test is \<open>strings.HasPrefix\<close> on the two strings.
\<close>

definition constructSubPath :: "error + string \<Rightarrow> Branch \<Rightarrow> string \<Rightarrow> error + string" where
  "constructSubPath getwd b rpath =
     (let subPath = Join [rootPath b, rpath]
      in case Abs getwd subPath of
           Inl err \<Rightarrow> Inl err
         | Inr absSubPath \<Rightarrow>
             if prefix (rootPath b) absSubPath then Inr subPath
             else Inl (Errorf (''Requested path '' @ rpath @ '' is outside of the branch'')))"

text \<open>
  What the specification means by a descendant of the root: the root's components are
  a prefix of the path's components.
\<close>

definition isDescendant :: "string \<Rightarrow> string \<Rightarrow> bool" where
  "isDescendant root p = prefix (createMappingPath root) (createMappingPath p)"

subsection \<open>The RPC client\<close>

text \<open>\<open>fingerprint\<close>: lower-case hex of SHA-256, a colon after every second digit but the last.\<close>

fun colonPairs :: "string \<Rightarrow> string" where
  "colonPairs (a # b # c # rest) = a # b # CHR '':'' # colonPairs (c # rest)"
| "colonPairs s = s"

definition fingerprint :: "(byte list \<Rightarrow> byte list) \<Rightarrow> byte list \<Rightarrow> string" where
  "fingerprint sum256 b = colonPairs (sprintfx (sum256 b))"

text \<open>
  A cached connection (\<open>*rpc.Client\<close>): an identity and, when it was wrapped in TLS, the
  raw leaf certificate the peer presented in the handshake.
\<close>

record conn =
  connId :: nat
  tlsPeer :: "byte list option"

text \<open>The \<open>Client\<close> struct; \<open>cert\<close> is the certificate chain of \<open>tls.Certificate\<close>.\<close>

record Client =
  token :: RufsNodeToken
  rpc :: string
  peers :: "string \<rightharpoonup> string"
  conns :: "string \<rightharpoonup> conn"
  fingerprints :: "string \<rightharpoonup> string"
  cert :: "byte list list option"
  redial :: bool

text \<open>
  The network the client talks to, over a state \<open>'w\<close> of the outside world:
  \<open>net.DialTimeout\<close>, the TLS handshake with the peer certificates it leaves in the
  connection state, and \<open>rpc.Client.Call\<close>.
\<close>

datatype dialResult = DialErr error | DialOk nat

record 'w net =
  dialTimeout :: "'w \<Rightarrow> string \<Rightarrow> dialResult \<times> 'w"
  handshake :: "'w \<Rightarrow> nat \<Rightarrow> byte list list \<times> 'w"
  rpcCall :: "'w \<Rightarrow> conn \<Rightarrow> string \<Rightarrow> request \<Rightarrow> (rvalue option \<times> error option) \<times> 'w"

text \<open>
  \<open>handleError\<close> of \<open>SendRequest\<close>: errors implementing \<open>net.Error\<close> become network
  errors; other errors whose text is not already a wrapped error become remote errors.
\<close>

fun handleError :: "error option \<Rightarrow> error option" where
  "handleError None = None"
| "handleError (Some (NetError s)) = Some (NodeError ErrNodeComm s False)"
| "handleError (Some err) =
     (if \<not> prefix ''RufsError: '' (errorText err)
      then Some (NodeError ErrRemoteAction (errorText err) (errorText err = errorText OsErrNotExist))
      else Some err)"

text \<open>
  Connection establishment of \<open>SendRequest\<close> (the block under \<open>if !ok\<close>): it either
  returns from \<open>SendRequest\<close> or continues with a connection.
\<close>

datatype ('a, 'b) early = Return 'a | Continue 'b

definition hasCert :: "Client \<Rightarrow> bool go" where
  "hasCert c = (case cert c of None \<Rightarrow> Ret False | Some [] \<Rightarrow> Panic | Some (x # xs) \<Rightarrow> Ret (x \<noteq> []))"

definition connect ::
  "'w net \<Rightarrow> (byte list \<Rightarrow> byte list) \<Rightarrow> Client \<Rightarrow> 'w \<Rightarrow> string \<Rightarrow> string
     \<Rightarrow> ((rvalue option \<times> error option) \<times> Client \<times> 'w, conn \<times> Client \<times> 'w) early go" where
  "connect nt sum256 c w node laddr =
     (case conns c node of
        Some cn \<Rightarrow> Ret (Continue (cn, c, w))
      | None \<Rightarrow>
          (case dialTimeout nt w laddr of
             (DialErr err, w1) \<Rightarrow> Ret (Return ((None, handleError (Some err)), c, w1))
           | (DialOk cid, w1) \<Rightarrow>
               (case hasCert c of
                  Panic \<Rightarrow> Panic
                | Ret False \<Rightarrow>
                    (let cn = \<lparr>connId = cid, tlsPeer = None\<rparr>
                     in Ret (Continue (cn, c\<lparr>conns := (conns c)(node \<mapsto> cn)\<rparr>, w1)))
                | Ret True \<Rightarrow>
                    (case handshake nt w1 cid of
                       ([], w2) \<Rightarrow> Panic
                     | (leaf # _, w2) \<Rightarrow>
                         (let rfp = fingerprint sum256 leaf;
                              expected = (case fingerprints c node of None \<Rightarrow> [] | Some e \<Rightarrow> e);
                              cn = \<lparr>connId = cid, tlsPeer = Some leaf\<rparr>
                          in if expected = [] then
                               Ret (Continue (cn, c\<lparr>fingerprints := (fingerprints c)(node \<mapsto> rfp),
                                                    conns := (conns c)(node \<mapsto> cn)\<rparr>, w2))
                             else if expected \<noteq> rfp then
                               Ret (Return ((None, Some (NodeError ErrUntrustedTarget node False)), c, w2))
                             else Ret (Continue (cn, c\<lparr>conns := (conns c)(node \<mapsto> cn)\<rparr>, w2)))))))"

definition assembleRequest :: "Client \<Rightarrow> string \<Rightarrow> request option \<Rightarrow> request" where
  "assembleRequest c node args =
     (let request = (\<lambda>k. None)(RequestTARGET \<mapsto> VStr node, RequestTOKEN \<mapsto> VToken (token c))
      in case args of None \<Rightarrow> request | Some a \<Rightarrow> request ++ a)"

definition isClosedConn :: "error option \<Rightarrow> bool" where
  "isClosedConn err = (err = Some RpcErrShutdown \<or> err = Some IoEOF \<or> err = Some IoErrUnexpectedEOF)"

text \<open>
  \<open>Client.SendRequest\<close>. The recursive call is the single redial: it runs with the
  \<open>redial\<close> flag set, so it cannot recur again.
\<close>

function SendRequest ::
  "'w net \<Rightarrow> (byte list \<Rightarrow> byte list) \<Rightarrow> Client \<Rightarrow> 'w \<Rightarrow> string \<Rightarrow> string \<Rightarrow> request option
     \<Rightarrow> ((rvalue option \<times> error option) \<times> Client \<times> 'w) go" where
  "SendRequest nt sum256 c w node remoteCall args =
     (case peers c node of
        None \<Rightarrow> Ret ((None, Some (NodeError ErrUnknownTarget node False)), c, w)
      | Some laddr \<Rightarrow>
          (case connect nt sum256 c w node laddr of
             Panic \<Rightarrow> Panic
           | Ret (Return r) \<Rightarrow> Ret r
           | Ret (Continue (cn, c1, w1)) \<Rightarrow>
               (case rpcCall nt w1 cn (''RufsServer.'' @ remoteCall) (assembleRequest c1 node args) of
                  ((response, err), w2) \<Rightarrow>
                    if \<not> redial c1 \<and> isClosedConn err then
                      SendRequest nt sum256 (c1\<lparr>conns := (conns c1)(node := None), redial := True\<rparr>)
                        w2 node remoteCall args
                    else Ret ((response, handleError err), c1\<lparr>redial := False\<rparr>, w2))))"
  by pat_completeness auto
termination
  by (relation "measure (\<lambda>(nt, sum256, c, w, node, remoteCall, args). if redial c then 0 else 1)")
     (auto simp: connect_def Let_def split: option.splits prod.splits dialResult.splits go.splits bool.splits list.splits if_splits)

declare SendRequest.simps [simp del]




definition SendPing ::
  "'w net \<Rightarrow> (byte list \<Rightarrow> byte list) \<Rightarrow> Client \<Rightarrow> 'w \<Rightarrow> string \<Rightarrow> string
     \<Rightarrow> ((string list \<times> string \<times> error option) \<times> Client \<times> 'w) go" where
  "SendPing nt sum256 c w node rpcaddr =
     (let temporary = (peers c node = None \<and> rpcaddr \<noteq> []);
          c0 = (if temporary then c\<lparr>peers := (peers c)(node \<mapsto> rpcaddr)\<rparr> else c)
      in case SendRequest nt sum256 c0 w node ''Ping'' None of
           Panic \<Rightarrow> Panic
         | Ret ((res, err), c1, w1) \<Rightarrow>
             (let cleanup = (\<lambda>cl. if temporary then
                               cl\<lparr>peers := (peers cl)(node := None),
                                  conns := (conns cl)(node := None),
                                  fingerprints := (fingerprints cl)(node := None)\<rparr>
                             else cl)
              in if res \<noteq> None \<and> err = None then
                   (case res of
                      Some (VStrings ret) \<Rightarrow>
                        Ret ((ret, (case fingerprints c1 node of None \<Rightarrow> [] | Some fp \<Rightarrow> fp), err),
                             cleanup c1, w1)
                    | _ \<Rightarrow> Panic)
                 else Ret (([], [], err), cleanup c1, w1)))"






text \<open>A network that always connects, presents the certificate \<open>[1]\<close> and answers Pong.\<close>

definition ex_net :: "unit net" where
  "ex_net = \<lparr>dialTimeout = (\<lambda>w a. (DialOk 0, w)),
             handshake = (\<lambda>w cid. ([[1]], w)),
             rpcCall = (\<lambda>w cn m rq. ((Some (VStrings [''Pong'']), None), w))\<rparr>"


definition ex_bare :: Client where
  "ex_bare =
     \<lparr>token = \<lparr>NodeName = ''c'', NodeAuth = []\<rparr>, rpc = [],
      peers = Map.empty, conns = Map.empty, fingerprints = Map.empty,
      cert = Some [[1]], redial = False\<rparr>"


subsection \<open>The mapping tree\<close>









subsection \<open>The tree client: reading and writing\<close>

text \<open>
  \<open>FileInfo\<close>, the fields that travel over RPC: the mode is \<open>os.FileMode\<close> (32 bits),
  the modification time an instant counted from the zero \<open>time.Time\<close>.
\<close>

record FileInfo =
  FiName :: string
  FiSize :: int
  FiMode :: "32 word"
  FiModTime :: int
  FiChecksum :: string

text \<open>
  Values the gob codec decodes into \<open>interface{}\<close>; a type assertion on another
  constructor panics.
\<close>

datatype gobValue =
    GInt int
  | GBytes "byte list"
  | GBool bool
  | GStrings "string list"
  | GInfos "FileInfo list list"
  | GList "gobValue list"











definition OpItemOp :: string where "OpItemOp = ''itemop''"



























subsection \<open>The tree client: listing\<close>



text \<open>
  The result under construction. The source keeps two slices \<open>dirs\<close> and \<open>fis\<close> and
  appends to both together; here they are one list of pairs, split when \<open>Tree.Dir\<close>
  returns.
\<close>

type_synonym dirAcc = "(string \<times> FileInfo list) list"

text \<open>
  Merging the entries of a branch into a listing already present: the names of the
  present listing are collected first, then every entry whose name is not among them
  is appended.
\<close>

definition mergeNames :: "FileInfo list \<Rightarrow> FileInfo list \<Rightarrow> FileInfo list" where
  "mergeNames existing bfi =
     existing @ filter (\<lambda>fi. FiName fi \<notin> set (map FiName existing)) bfi"

text \<open>One returned directory: merged into its entry when present, appended otherwise.\<close>

definition mergeDir :: "string \<Rightarrow> FileInfo list \<Rightarrow> dirAcc \<Rightarrow> dirAcc" where
  "mergeDir path bfi acc =
     (if path \<in> set (map fst acc)
      then map (\<lambda>(dir, f). if dir = path then (dir, mergeNames f bfi) else (dir, f)) acc
      else acc @ [(path, bfi)])"























section \<open>Properties\<close>

subsection \<open>Token verification\<close>

text \<open>
  C4. For a Ping or Data request that names a target and carries a token: when the
  target is not registered the call fails with the unknown-target error; when it is
  registered and the token's auth string differs from the upper-case hex of
  SHA-512/224 over caller name and target secret, the call fails with the invalid-token
  error; and Ping answers \<open>["Pong"]\<close> exactly when the target is registered and the auth
  string matches.
\<close>

theorem checkToken_Ping_Data:
  assumes "request RequestTARGET = Some (VStr target)"
    and "request RequestTOKEN = Some (VToken tok)"
  shows "(nodes target = None \<longrightarrow>
            Ping h nodes request = Ret (None, Some (Sentinel ErrUnknownTarget)) \<and>
            Data h nodes request st = Ret ((None, Some (Sentinel ErrUnknownTarget)), st))
       \<and> (\<forall>node. nodes target = Some node \<and>
              NodeAuth tok \<noteq> sprintfX (h (bytesOf (NodeName tok @ secret node))) \<longrightarrow>
            Ping h nodes request = Ret (None, Some (Sentinel ErrInvalidToken)) \<and>
            Data h nodes request st = Ret ((None, Some (Sentinel ErrInvalidToken)), st))
       \<and> (Ping h nodes request = Ret (Some (VStrings [''Pong'']), None) \<longleftrightarrow>
            (\<exists>node. nodes target = Some node \<and>
              NodeAuth tok = sprintfX (h (bytesOf (NodeName tok @ secret node)))))"
proof (cases "nodes target")
  case None
  then show ?thesis
    using assms by (simp add: Ping_def Data_def checkToken_def)
next
  case (Some node)
  then show ?thesis
    using assms by (simp add: Ping_def Data_def checkToken_def Let_def)
qed

theorem checkToken_Ping_Data_witness:
  "Ping (take 2) ex_nodes (ex_request ''B'' ''6373'') = Ret (None, Some (Sentinel ErrUnknownTarget))
   \<and> Data (take 2) ex_nodes (ex_request ''A'' ''0000'') () = Ret ((None, Some (Sentinel ErrInvalidToken)), ())
   \<and> Ping (take 2) ex_nodes (ex_request ''A'' ''6373'') = Ret (Some (VStrings [''Pong'']), None)"
  using checkToken_Ping_Data [of "ex_request ''B'' ''6373''" "''B''"
          "\<lparr>NodeName = ''c'', NodeAuth = ''6373''\<rparr>" ex_nodes "take 2" "()"]
        checkToken_Ping_Data [of "ex_request ''A'' ''0000''" "''A''"
          "\<lparr>NodeName = ''c'', NodeAuth = ''0000''\<rparr>" ex_nodes "take 2" "()"]
        checkToken_Ping_Data [of "ex_request ''A'' ''6373''" "''A''"
          "\<lparr>NodeName = ''c'', NodeAuth = ''6373''\<rparr>" ex_nodes "take 2" "()"]
  by (simp add: ex_nodes_def ex_request_def bytesOf_def hexDigitUpper_def)

subsection \<open>Path sandboxing\<close>

text \<open>
  C1 (evaluation at the failing input). With the root \<open>/data/branch\<close> the request path
  \<open>../branch2/x\<close> passes the containment test: the joined and cleaned path
  \<open>/data/branch2/x\<close> has the root as a string prefix, yet it is not a descendant of
  the root.
\<close>

theorem constructSubPath_sibling_escapes:
  "constructSubPath getwd \<lparr>rootPath = ''/data/branch'', branchName = n, readonly = ro\<rparr>
       ''../branch2/x'' = Inr ''/data/branch2/x''
   \<and> \<not> isDescendant ''/data/branch'' ''/data/branch2/x''"
  by (simp add: constructSubPath_def Join_def Clean_def cleanStep_def Abs_def IsAbs_def
        isDescendant_def createMappingPath_def)

subsection \<open>Certificate pinning\<close>




















text \<open>
  C10. A ping of a node that is not registered, with a non-empty address, leaves no
  entry for the node in the peer, connection and fingerprint maps when it returns.
\<close>

theorem SendPing_temporary_peer_removed:
  assumes "peers c node = None" and "rpcaddr \<noteq> []"
    and "SendPing nt h c w node rpcaddr = Ret (res, c', w')"
  shows "peers c' node = None \<and> conns c' node = None \<and> fingerprints c' node = None"
  using assms unfolding SendPing_def
  by (auto simp: Let_def split: go.splits prod.splits option.splits rvalue.splits if_splits)

theorem SendPing_temporary_peer_removed_witness:
  "SendPing ex_net id ex_bare () ''A'' ''h:1'' = Ret (([''Pong''], ''01'', None), ex_bare, ())
   \<and> peers ex_bare ''A'' = None \<and> conns ex_bare ''A'' = None \<and> fingerprints ex_bare ''A'' = None"
proof -
  have run: "SendPing ex_net id ex_bare () ''A'' ''h:1'' = Ret (([''Pong''], ''01'', None), ex_bare, ())"
    by (simp add: SendPing_def SendRequest.simps connect_def hasCert_def ex_net_def ex_bare_def
          fingerprint_def hexDigitLower_def isClosedConn_def Let_def)
  have "peers ex_bare ''A'' = None" and "''h:1'' \<noteq> []"
    by (simp_all add: ex_bare_def)
  from SendPing_temporary_peer_removed [OF this run] run show ?thesis
    by simp
qed

subsection \<open>Tree traversal, reads and writes\<close>


















subsection \<open>Directory listings\<close>

lemma map_fst_update:
  "map fst (map (\<lambda>(dir, f). if dir = path then (dir, g f) else (dir, f)) acc) = map fst acc"
  by (induction acc) auto

lemma mergeDir_fst: "set (map fst (mergeDir path bfi acc)) = insert path (set (map fst acc))"
  by (cases "path \<in> set (map fst acc)")
     (simp_all add: mergeDir_def map_fst_update insert_absorb del: map_map set_map)



































end
